theory Spec2Isabelle
  imports Main "HOL-Library.Sublist"
begin

section \<open>Texts\<close>

text \<open>
  The answer service of PlacementPanic (\<^verbatim>\<open>server/answer-service.ts\<close>) works on JavaScript
  strings. A text is modelled as a \<^typ>\<open>string\<close>: a list of code units, each unit read as the
  code point of the same number (U+0000 to U+00FF). The numbers the service computes are small
  integers, exact in a JavaScript number, and are modelled in \<^typ>\<open>int\<close> and \<^typ>\<open>nat\<close>.
\<close>

text \<open>The characters the regular expression class \<^verbatim>\<open>\s\<close> matches, in this range: tab, line
  feed, vertical tab, form feed, carriage return, space and the no-break space.\<close>

definition isSpace :: "char \<Rightarrow> bool" where
  "isSpace c \<longleftrightarrow>
     c = CHR 0x09 \<or> c = CHR 0x0A \<or> c = CHR 0x0B \<or> c = CHR 0x0C \<or> c = CHR 0x0D \<or>
     c = CHR 0x20 \<or> c = CHR 0xA0"

text \<open>
  \<^verbatim>\<open>s.split(/\s+/)\<close>. The search runs over the text from the left; \<open>cur\<close> is the piece
  collected since the end of the last separator. A whitespace character closes the piece
  and the whole run of whitespace is skipped; the end of the text closes the last piece. The
  empty text gives one empty piece.
\<close>

function splitFrom :: "string \<Rightarrow> string \<Rightarrow> string list" where
  "splitFrom cur [] = [cur]"
| "splitFrom cur (c # cs) =
     (if isSpace c then cur # splitFrom [] (dropWhile isSpace cs)
      else splitFrom (cur @ [c]) cs)"
  by pat_completeness auto
termination
  by (relation "measure (\<lambda>(cur, s). length s)") (auto simp: less_Suc_eq_le length_dropWhile_le)

definition split_ws :: "string \<Rightarrow> string list" where
  "split_ws s = splitFrom [] s"

text \<open>\<^verbatim>\<open>s.split("\n")\<close>: the pieces between line feeds.\<close>

fun splitLinesFrom :: "string \<Rightarrow> string \<Rightarrow> string list" where
  "splitLinesFrom cur [] = [cur]"
| "splitLinesFrom cur (c # cs) =
     (if c = CHR 0x0A then cur # splitLinesFrom [] cs else splitLinesFrom (cur @ [c]) cs)"

definition split_lines :: "string \<Rightarrow> string list" where
  "split_lines s = splitLinesFrom [] s"

text \<open>\<^verbatim>\<open>s.includes(x)\<close>: \<open>x\<close> starts at some position of \<open>s\<close>.\<close>

primrec includes_str :: "string \<Rightarrow> string \<Rightarrow> bool" where
  "includes_str [] x \<longleftrightarrow> x = []"
| "includes_str (c # cs) x \<longleftrightarrow> prefix x (c # cs) \<or> includes_str cs x"

text \<open>\<^verbatim>\<open>s.toLowerCase()\<close>: the capital letters of this range are A to Z and U+00C0 to U+00DE
  without the multiplication sign U+00D7; the small letter is 32 units further.\<close>

definition lowerChar :: "char \<Rightarrow> char" where
  "lowerChar c =
     (let n = (of_char c :: nat)
      in if (65 \<le> n \<and> n \<le> 90) \<or> (192 \<le> n \<and> n \<le> 222 \<and> n \<noteq> 215) then char_of (n + 32) else c)"

definition toLowerCase :: "string \<Rightarrow> string" where
  "toLowerCase s = map lowerChar s"

section \<open>AnswerEvaluator\<close>

definition technicalKeywords :: "string list" where
  "technicalKeywords =
     [''algorithm'', ''time complexity'', ''space complexity'', ''optimization'', ''database'',
      ''api'', ''async'', ''promise'', ''callback'', ''inheritance'', ''encapsulation'',
      ''polymorphism'', ''design pattern'', ''microservice'', ''cache'', ''index'', ''query'',
      ''transaction'', ''concurrency'', ''thread'']"

text \<open>The loop over the keywords, with the running count.\<close>

fun countKeywords :: "string \<Rightarrow> string list \<Rightarrow> int \<Rightarrow> int" where
  "countKeywords lowerText [] count = count"
| "countKeywords lowerText (keyword # rest) count =
     countKeywords lowerText rest (if includes_str lowerText keyword then count + 1 else count)"

definition countTechnicalTerms :: "string \<Rightarrow> int" where
  "countTechnicalTerms text = (let lowerText = toLowerCase text
                               in countKeywords lowerText technicalKeywords 0)"

definition calculateScore :: "string \<Rightarrow> string \<Rightarrow> string \<Rightarrow> int" where
  "calculateScore answerText questionText difficulty =
     (let score = 50;
          wordCount = length (split_ws answerText);
          score =
            (if difficulty = ''easy'' then
               (if wordCount \<ge> 30 then score + 20 else if wordCount \<ge> 15 then score + 10 else score)
             else if difficulty = ''medium'' then
               (if wordCount \<ge> 60 then score + 20 else if wordCount \<ge> 40 then score + 10 else score)
             else
               (if wordCount \<ge> 100 then score + 20 else if wordCount \<ge> 70 then score + 10 else score));
          technicalTerms = countTechnicalTerms answerText;
          score = score + min (technicalTerms * 3) 15;
          score =
            (if includes_str answerText [CHR 0x0A] \<or> includes_str answerText '':'' \<or>
                includes_str answerText '';'' \<or> includes_str answerText '',''
             then score + 10 else score);
          questionTerms = filter (\<lambda>w. length w > 3) (split_ws questionText);
          relevantTerms =
            filter (\<lambda>term. includes_str (toLowerCase answerText) (toLowerCase term)) questionTerms;
          score =
            (if length relevantTerms > 0 then score + min (int (length relevantTerms) * 5) 15
             else score)
      in min (max score 0) 100)"

subsection \<open>The parts of the score\<close>

text \<open>
  Names for the parts of \<^verbatim>\<open>calculateScore\<close>: the word count, the thresholds of each
  difficulty, and the four additions to the base of 50. The lemma \<open>calculateScore_parts\<close>
  below shows that the function is their clamped sum.
\<close>

definition wordCount :: "string \<Rightarrow> nat" where
  "wordCount answerText = length (split_ws answerText)"

definition highThreshold :: "string \<Rightarrow> nat" where
  "highThreshold difficulty =
     (if difficulty = ''easy'' then 30 else if difficulty = ''medium'' then 60 else 100)"

definition midThreshold :: "string \<Rightarrow> nat" where
  "midThreshold difficulty =
     (if difficulty = ''easy'' then 15 else if difficulty = ''medium'' then 40 else 70)"

definition lengthAdjustment :: "string \<Rightarrow> nat \<Rightarrow> int" where
  "lengthAdjustment difficulty n =
     (if n \<ge> highThreshold difficulty then 20
      else if n \<ge> midThreshold difficulty then 10 else 0)"

definition matchedKeywords :: "string \<Rightarrow> string list" where
  "matchedKeywords answerText =
     filter (includes_str (toLowerCase answerText)) technicalKeywords"

definition technicalAdjustment :: "string \<Rightarrow> int" where
  "technicalAdjustment answerText = min (countTechnicalTerms answerText * 3) 15"

definition hasStructure :: "string \<Rightarrow> bool" where
  "hasStructure answerText \<longleftrightarrow>
     includes_str answerText [CHR 0x0A] \<or> includes_str answerText '':'' \<or>
     includes_str answerText '';'' \<or> includes_str answerText '',''"

definition structureAdjustment :: "string \<Rightarrow> int" where
  "structureAdjustment answerText = (if hasStructure answerText then 10 else 0)"

definition questionTerms :: "string \<Rightarrow> string list" where
  "questionTerms questionText = filter (\<lambda>w. length w > 3) (split_ws questionText)"

definition relevantTerms :: "string \<Rightarrow> string \<Rightarrow> string list" where
  "relevantTerms answerText questionText =
     filter (\<lambda>term. includes_str (toLowerCase answerText) (toLowerCase term))
       (questionTerms questionText)"

definition relevanceAdjustment :: "string \<Rightarrow> string \<Rightarrow> int" where
  "relevanceAdjustment answerText questionText =
     (if length (relevantTerms answerText questionText) > 0
      then min (int (length (relevantTerms answerText questionText)) * 5) 15 else 0)"

subsection \<open>The word count of the specification\<close>





subsection \<open>Feedback, analysis and suggestions\<close>

definition generateFeedback :: "string \<Rightarrow> string \<Rightarrow> int \<Rightarrow> string \<Rightarrow> string \<Rightarrow> string" where
  "generateFeedback answerText questionText score category difficulty =
     (let wordCount = length (split_ws answerText);
          feedback =
            (if score \<ge> 80 then
               ''Excellent answer! You provided a comprehensive response to the '' @ category @
               '' question. Your explanation demonstrates strong understanding.''
             else if score \<ge> 60 then
               ''Good response! Your answer shows solid understanding of the topic.''
             else if score \<ge> 40 then
               ''Your answer covers the basics but could be more detailed.''
             else
               ''Your answer needs improvement. Try including more technical depth and examples.'');
          feedback =
            (if wordCount < 20 \<and> difficulty \<noteq> ''easy''
             then feedback @ ''Consider providing more details in your answer.'' else feedback)
      in feedback)"



text \<open>\<^verbatim>\<open>analyzeAnswer\<close> returns the pair \<open>(strengths, improvements)\<close>; each check pushes to
  the end of one of the two lists.\<close>

definition analyzeAnswer :: "string \<Rightarrow> string \<Rightarrow> string list \<times> string list" where
  "analyzeAnswer answerText difficulty =
     (let strengths = []; improvements = [];
          (strengths, improvements) =
            (if includes_str answerText ''```'' \<or> includes_str answerText ''{'' \<or>
                includes_str answerText ''[''
             then (strengths @ [''Good: Included code examples or pseudo-code''], improvements)
             else if difficulty \<noteq> ''easy''
             then (strengths,
                   improvements @ [''Consider adding code examples to illustrate concepts''])
             else (strengths, improvements));
          (strengths, improvements) =
            (if length (split_lines answerText) > 3
             then (strengths @ [''Good: Well-structured and organized answer''], improvements)
             else (strengths,
                   improvements @ [''Try formatting your answer with line breaks for clarity'']));
          (strengths, improvements) =
            (if includes_str (toLowerCase answerText) ''algorithm'' \<or>
                includes_str (toLowerCase answerText) ''complexity'' \<or>
                includes_str (toLowerCase answerText) ''optimization''
             then (strengths @ [''Good: Used appropriate technical terminology''], improvements)
             else if difficulty = ''medium'' \<or> difficulty = ''hard''
             then (strengths,
                   improvements @ [''Use more technical terminology specific to the domain''])
             else (strengths, improvements));
          (strengths, improvements) =
            (if includes_str answerText ''because'' \<or> includes_str answerText ''therefore'' \<or>
                includes_str answerText ''this means''
             then (strengths @ [''Good: Clear explanations and reasoning''], improvements)
             else (strengths, improvements @ [''Explain your reasoning behind key points'']));
          strengths =
            (if length strengths = 0 then strengths @ [''Attempted to answer the question'']
             else strengths);
          improvements =
            (if length improvements = 0
             then improvements @ [''Keep practicing with similar questions''] else improvements)
      in (strengths, improvements))"

definition generateSuggestions :: "string \<Rightarrow> string \<Rightarrow> string list \<Rightarrow> string list" where
  "generateSuggestions category difficulty improvements =
     (let suggestions =
            [''Practice more '' @ difficulty @ '' level '' @ category @ '' questions'',
             ''Review resources and documentation for this topic'',
             ''Explain your answers out loud to practice communication'',
             ''Mock interviews help - they simulate real interview conditions''];
          suggestions =
            (if difficulty = ''hard''
             then suggestions @
                  [''Work through similar problems step by step'',
                   ''Understand the core concepts before attempting harder variants'']
             else suggestions)
      in suggestions)"

text \<open>The interface \<^verbatim>\<open>AnswerEvaluation\<close> of \<^verbatim>\<open>shared/schema.ts\<close>. Its fields
  \<^verbatim>\<open>score\<close> and \<^verbatim>\<open>feedback\<close> carry the prefix \<open>eval_\<close>, since the answer record below has
  fields of the same names.\<close>

record AnswerEvaluation =
  eval_score :: int
  eval_feedback :: string
  strengths :: "string list"
  improvements :: "string list"
  suggestions :: "string list"
  evaluationTime :: int

text \<open>
  \<^verbatim>\<open>evaluateAnswer\<close>. The two readings of the clock, \<^verbatim>\<open>Date.now()\<close> at the start and at the
  end, are inputs of the model: \<open>startTime\<close> and \<open>endTime\<close>. The five timer delays and the
  optional progress observer (the submission handler passes none) do not enter the value
  returned and are left out.
\<close>

definition evaluateAnswer ::
  "string \<Rightarrow> string \<Rightarrow> string \<Rightarrow> string \<Rightarrow> int \<Rightarrow> int \<Rightarrow> AnswerEvaluation" where
  "evaluateAnswer answerText questionText difficulty category startTime endTime =
     (let score = calculateScore answerText questionText difficulty;
          feedback = generateFeedback answerText questionText score category difficulty;
          (strengths, improvements) = analyzeAnswer answerText difficulty;
          suggestions = generateSuggestions category difficulty improvements;
          evaluationTime = endTime - startTime
      in \<lparr>eval_score = score, eval_feedback = feedback, strengths = strengths,
          improvements = improvements, suggestions = suggestions,
          evaluationTime = evaluationTime\<rparr>)"

section \<open>MemAnswerStorage\<close>

text \<open>
  A row of the table \<^verbatim>\<open>answers\<close> of \<^verbatim>\<open>shared/schema.ts\<close>. A column that may be null, or a
  property that an object does not have, is \<open>None\<close>. A date is its number of milliseconds.
  \<open>AnswerInput\<close> is \<^verbatim>\<open>Omit<Answer, "id" | "submittedAt">\<close>, the argument of \<^verbatim>\<open>saveAnswer\<close>;
  \<open>Answer\<close> adds the two fields left out (\<open>id'\<close> is the field \<^verbatim>\<open>id\<close>).
\<close>

type_synonym date = int

record AnswerInput =
  interviewId :: string
  questionId :: string
  userId :: string
  answerText :: string
  confidence :: "int option"
  feedback :: "string option"
  score :: "int option"
  evaluationStatus :: "string option"
  evaluatedAt :: "date option"

record Answer = AnswerInput +
  id' :: string
  submittedAt :: "date option"

datatype error = Error string

text \<open>The class has one field, the map \<^verbatim>\<open>answers\<close> from identifiers to rows.\<close>

record MemAnswerStorage =
  answers :: "string \<rightharpoonup> Answer"


text \<open>
  \<^verbatim>\<open>updateAnswerEvaluation\<close>. The exception thrown for an unknown identifier is the result
  \<open>Inl\<close>; it is thrown before the map is written, so the storage returned with it is the
  storage of the call.
\<close>

definition updateAnswerEvaluation ::
  "MemAnswerStorage \<Rightarrow> string \<Rightarrow> AnswerEvaluation \<Rightarrow> date \<Rightarrow> (error + Answer) \<times> MemAnswerStorage"
  where
  "updateAnswerEvaluation this answerId evaluation now =
     (case answers this answerId of
        None \<Rightarrow> (Inl (Error (''Answer '' @ answerId @ '' not found'')), this)
      | Some answer \<Rightarrow>
          (let updated =
                 answer\<lparr>feedback := Some (eval_feedback evaluation),
                        score := Some (eval_score evaluation),
                        evaluationStatus := Some ''completed'',
                        evaluatedAt := Some now\<rparr>
           in (Inr updated, this\<lparr>answers := (answers this)(answerId \<mapsto> updated)\<rparr>)))"

definition getAnswer :: "MemAnswerStorage \<Rightarrow> string \<Rightarrow> Answer option" where
  "getAnswer this answerId = answers this answerId"

section \<open>The submission handler\<close>



subsection \<open>Whitespace at the ends of a text\<close>



subsection \<open>Sample data\<close>


definition sampleAnswer :: Answer where
  "sampleAnswer =
     \<lparr>interviewId = ''i-1'', questionId = ''q-1'', userId = ''u-1'',
      answerText = ''the explanation, see'', confidence = Some 3, feedback = None,
      score = None, evaluationStatus = Some ''pending'', evaluatedAt = None,
      id' = ''a-1'', submittedAt = Some 1000\<rparr>"

definition sampleStorage :: MemAnswerStorage where
  "sampleStorage = \<lparr>answers = [''a-1'' \<mapsto> sampleAnswer]\<rparr>"

definition sampleEvaluation :: AnswerEvaluation where
  "sampleEvaluation =
     \<lparr>eval_score = 65,
      eval_feedback = ''Good response! Your answer shows solid understanding of the topic.'',
      strengths = [''Attempted to answer the question''],
      improvements = [''Explain your reasoning behind key points''],
      suggestions = [''Review resources and documentation for this topic''],
      evaluationTime = 500\<rparr>"







section \<open>Properties of the texts\<close>

lemma includes_str_sublist: "includes_str s x \<longleftrightarrow> sublist x s"
  by (induction s) (simp_all add: sublist_Cons_right)

lemma includes_str_iff: "includes_str s x \<longleftrightarrow> (\<exists>u v. s = u @ x @ v)"
  by (simp add: includes_str_sublist sublist_def)

section \<open>The score as a clamped sum\<close>

lemma score_arith:
  "(let score = 50;
        score =
          (if d = ''easy'' then
             (if n \<ge> 30 then score + 20 else if n \<ge> 15 then score + 10 else score)
           else if d = ''medium'' then
             (if n \<ge> 60 then score + 20 else if n \<ge> 40 then score + 10 else score)
           else
             (if n \<ge> 100 then score + 20 else if n \<ge> 70 then score + 10 else score));
        score = score + min (t * 3) 15;
        score = (if S then score + 10 else score);
        score = (if r > 0 then score + min (int r * 5) 15 else score)
    in min (max score 0) (100::int)) =
   min (max (50 + lengthAdjustment d n + min (t * 3) 15 + (if S then 10 else 0) +
             (if r > 0 then min (int r * 5) 15 else 0)) 0) 100"
proof -
  have len:
    "(if d = ''easy'' then
        (if n \<ge> 30 then (50::int) + 20 else if n \<ge> 15 then 50 + 10 else 50)
      else if d = ''medium'' then
        (if n \<ge> 60 then 50 + 20 else if n \<ge> 40 then 50 + 10 else 50)
      else
        (if n \<ge> 100 then 50 + 20 else if n \<ge> 70 then 50 + 10 else 50)) =
     50 + lengthAdjustment d n"
    by (simp add: lengthAdjustment_def highThreshold_def midThreshold_def)
  show ?thesis
    unfolding Let_def len
    by (cases S; cases "r > 0"; simp only: if_True if_False add.assoc add_0_right)
qed

lemma calculateScore_parts:
  "calculateScore a q d =
     min (max (50 + lengthAdjustment d (wordCount a) + technicalAdjustment a +
               structureAdjustment a + relevanceAdjustment a q) 0) 100"
  unfolding calculateScore_def wordCount_def technicalAdjustment_def
    structureAdjustment_def hasStructure_def relevanceAdjustment_def relevantTerms_def
    questionTerms_def Let_def
  by (rule score_arith [unfolded Let_def])

lemma countKeywords_filter:
  "countKeywords t ks n = n + int (length (filter (includes_str t) ks))"
  by (induction ks arbitrary: n) simp_all

lemma countTechnicalTerms_matched:
  "countTechnicalTerms a = int (length (matchedKeywords a))"
  by (simp add: countTechnicalTerms_def matchedKeywords_def countKeywords_filter)

lemma lengthAdjustment_bounds: "0 \<le> lengthAdjustment d n \<and> lengthAdjustment d n \<le> 20"
  by (simp add: lengthAdjustment_def)


lemma technicalAdjustment_bounds:
  "0 \<le> technicalAdjustment a \<and> technicalAdjustment a \<le> 15"
  by (simp add: technicalAdjustment_def countTechnicalTerms_matched)

lemma structureAdjustment_bounds:
  "0 \<le> structureAdjustment a \<and> structureAdjustment a \<le> 10"
  by (simp add: structureAdjustment_def)

lemma relevanceAdjustment_bounds:
  "0 \<le> relevanceAdjustment a q \<and> relevanceAdjustment a q \<le> 15"
  by (simp add: relevanceAdjustment_def)

lemma technicalKeywords_distinct:
  "distinct technicalKeywords \<and> length technicalKeywords = 20"
  by (simp add: technicalKeywords_def)

lemma technicalKeywords_lower: "\<forall>k \<in> set technicalKeywords. toLowerCase k = k"
  by (simp add: technicalKeywords_def toLowerCase_def lowerChar_def)

lemma evaluateAnswer_score:
  "eval_score (evaluateAnswer a q d c t0 t1) = calculateScore a q d"
  by (simp add: evaluateAnswer_def Let_def split_def)

lemma evaluateAnswer_feedback:
  "eval_feedback (evaluateAnswer a q d c t0 t1) =
     generateFeedback a q (calculateScore a q d) c d"
  by (simp add: evaluateAnswer_def Let_def split_def)


section \<open>The evaluator: range and parts of the score\<close>

text \<open>
  Claim C1. For every answer text, question text, difficulty and category, the score that
  the evaluator returns is the value of \<open>calculateScore\<close>, which is the sum of the base 50
  and the four adjustments clamped to the range from 0 to 100; it is at least 0 and at most
  100.
\<close>

theorem calculateScore_range:
  "eval_score (evaluateAnswer a q d c t0 t1) = calculateScore a q d \<and>
   calculateScore a q d =
     min (max (50 + (lengthAdjustment d (wordCount a) + technicalAdjustment a +
                     structureAdjustment a + relevanceAdjustment a q)) 0) 100 \<and>
   0 \<le> calculateScore a q d \<and> calculateScore a q d \<le> 100"
proof -
  have "calculateScore a q d =
     min (max (50 + (lengthAdjustment d (wordCount a) + technicalAdjustment a +
                     structureAdjustment a + relevanceAdjustment a q)) 0) 100"
    by (simp only: calculateScore_parts add.assoc)
  moreover from this have "0 \<le> calculateScore a q d \<and> calculateScore a q d \<le> 100"
    by simp
  ultimately show ?thesis
    using evaluateAnswer_score by blast
qed

text \<open>An answer of 31 words with five keywords, a comma and the three terms of the question
  collects 110 points, and the score is 100.\<close>

theorem calculateScore_range_witness:
  "eval_score
     (evaluateAnswer
        ''algorithm, database api cache index explain recursion deeply a b c d e f g h i j k l m n o p q r s t u v w''
        ''Explain recursion deeply'' ''easy'' ''DSA'' 0 500) = 100"
proof -
  let ?a = "''algorithm, database api cache index explain recursion deeply a b c d e f g h i j k l m n o p q r s t u v w''"
  let ?q = "''Explain recursion deeply''"
  have "lengthAdjustment ''easy'' (wordCount ?a) = 20" by code_simp
  moreover have "technicalAdjustment ?a = 15" by code_simp
  moreover have "structureAdjustment ?a = 10" by code_simp
  moreover have "relevanceAdjustment ?a ?q = 15" by code_simp
  ultimately show ?thesis
    using calculateScore_range [of ?a ?q "''easy''" "''DSA''" 0 500] by simp
qed

text \<open>
  Claim C10. The base is 50 and no adjustment is negative, so for every answer text,
  question text and difficulty the score is at least 50 and at most 100, and the lower
  bound of the clamp never applies: the score is the smaller of the sum and 100.
\<close>

theorem calculateScore_at_least_base:
  "50 \<le> calculateScore a q d \<and> calculateScore a q d \<le> 100 \<and>
   0 \<le> lengthAdjustment d (wordCount a) \<and> 0 \<le> technicalAdjustment a \<and>
   0 \<le> structureAdjustment a \<and> 0 \<le> relevanceAdjustment a q \<and>
   calculateScore a q d =
     min (50 + (lengthAdjustment d (wordCount a) + technicalAdjustment a +
                structureAdjustment a + relevanceAdjustment a q)) 100"
  using lengthAdjustment_bounds [of d "wordCount a"] technicalAdjustment_bounds [of a]
    structureAdjustment_bounds [of a] relevanceAdjustment_bounds [of a q]
  by (simp add: calculateScore_parts)

theorem calculateScore_at_least_base_witness:
  "calculateScore ''I dont know.'' ''Explain time complexity of quicksort'' ''hard'' = 50"
proof -
  let ?a = "''I dont know.''"
  let ?q = "''Explain time complexity of quicksort''"
  have "lengthAdjustment ''hard'' (wordCount ?a) = 0" by code_simp
  moreover have "technicalAdjustment ?a = 0" by code_simp
  moreover have "structureAdjustment ?a = 0" by code_simp
  moreover have "relevanceAdjustment ?a ?q = 0" by code_simp
  ultimately show ?thesis
    using calculateScore_at_least_base [of ?a ?q "''hard''"] by simp
qed




text \<open>
  Claim C4. The technical-depth adjustment is 3 points for each keyword of the vocabulary
  that occurs in the lower-cased answer text, capped at 15: it is the smaller of 15 and 3
  times the number of such keywords, and never more than 15. The vocabulary has 20 distinct
  keywords, all in lower case, so the match ignores the case of the answer.
\<close>

theorem technical_contribution:
  "technicalAdjustment a =
     min (3 * int (card {k \<in> set technicalKeywords. \<exists>u v. toLowerCase a = u @ k @ v})) 15 \<and>
   technicalAdjustment a \<le> 15 \<and>
   length technicalKeywords = 20 \<and> distinct technicalKeywords \<and>
   (\<forall>k \<in> set technicalKeywords. toLowerCase k = k) \<and>
   calculateScore a q d =
     min (max (50 + lengthAdjustment d (wordCount a) + technicalAdjustment a +
               structureAdjustment a + relevanceAdjustment a q) 0) 100"
proof -
  have "length (matchedKeywords a) =
        card {k \<in> set technicalKeywords. \<exists>u v. toLowerCase a = u @ k @ v}"
  proof -
    have "{k \<in> set technicalKeywords. \<exists>u v. toLowerCase a = u @ k @ v} =
          {k. includes_str (toLowerCase a) k} \<inter> set technicalKeywords"
      by (auto simp: includes_str_iff)
    then show ?thesis
      using technicalKeywords_distinct
      by (simp add: matchedKeywords_def distinct_length_filter)
  qed
  then have "technicalAdjustment a =
     min (3 * int (card {k \<in> set technicalKeywords. \<exists>u v. toLowerCase a = u @ k @ v})) 15"
    by (simp add: technicalAdjustment_def countTechnicalTerms_matched mult.commute)
  then show ?thesis
    using technicalAdjustment_bounds [of a] technicalKeywords_distinct technicalKeywords_lower
      calculateScore_parts [of a q d]
    by blast
qed

text \<open>Six keywords, some in capitals, give 15 points and not 18.\<close>

theorem technical_contribution_witness:
  "technicalAdjustment ''Algorithm, DATABASE and API: cache the index per query'' = 15 \<and>
   5 \<le> card {k \<in> set technicalKeywords.
          \<exists>u v. toLowerCase ''Algorithm, DATABASE and API: cache the index per query'' =
                  u @ k @ v}"
proof -
  let ?a = "''Algorithm, DATABASE and API: cache the index per query''"
  have "technicalAdjustment ?a = 15" by code_simp
  then show ?thesis
    using technical_contribution [of ?a "[]" "''easy''"] by linarith
qed

text \<open>
  Claim C5. The relevance adjustment splits the question text at whitespace, keeps the
  tokens of more than 3 characters, and counts those whose lower-cased form occurs anywhere
  in the lower-cased answer text, also inside a longer word; it is 5 points for each such
  token, capped at 15, and never more than 15.
\<close>

theorem relevance_contribution:
  "relevanceAdjustment a q =
     min (5 * int (length (filter
            (\<lambda>t. length t > 3 \<and> (\<exists>u v. toLowerCase a = u @ toLowerCase t @ v))
            (split_ws q)))) 15 \<and>
   relevanceAdjustment a q \<le> 15 \<and>
   calculateScore a q d =
     min (max (50 + lengthAdjustment d (wordCount a) + technicalAdjustment a +
               structureAdjustment a + relevanceAdjustment a q) 0) 100"
proof -
  have "relevantTerms a q =
        filter (\<lambda>t. length t > 3 \<and> (\<exists>u v. toLowerCase a = u @ toLowerCase t @ v)) (split_ws q)"
    by (simp add: relevantTerms_def questionTerms_def includes_str_iff)
  then have "relevanceAdjustment a q =
     min (5 * int (length (filter
            (\<lambda>t. length t > 3 \<and> (\<exists>u v. toLowerCase a = u @ toLowerCase t @ v))
            (split_ws q)))) 15"
    unfolding relevanceAdjustment_def by (simp add: mult.commute)
  then show ?thesis
    using relevanceAdjustment_bounds [of a q] calculateScore_parts [of a q d] by blast
qed

text \<open>The term \<open>Plan\<close> of the question occurs inside the word \<open>explanation\<close> of the
  answer, and counts.\<close>

theorem relevance_contribution_witness:
  "relevanceAdjustment ''the explanation, see'' ''Plan this'' = 5 \<and>
   length (filter
     (\<lambda>t. length t > 3 \<and> (\<exists>u v. toLowerCase ''the explanation, see'' = u @ toLowerCase t @ v))
     (split_ws ''Plan this'')) = 1"
proof -
  have "relevanceAdjustment ''the explanation, see'' ''Plan this'' = 5" by code_simp
  then show ?thesis
    using relevance_contribution [of "''the explanation, see''" "''Plan this''" "''easy''"]
    by linarith
qed

text \<open>
  Claim C9. The score and the feedback returned for an answer text, a question text, a
  difficulty and a category are functions of these four inputs: two evaluations of the same
  input, whatever the clock reads during each, return the same score and the same feedback.
\<close>

theorem evaluateAnswer_deterministic:
  "eval_score (evaluateAnswer a q d c t0 t1) = eval_score (evaluateAnswer a q d c t0' t1') \<and>
   eval_feedback (evaluateAnswer a q d c t0 t1) =
     eval_feedback (evaluateAnswer a q d c t0' t1') \<and>
   eval_score (evaluateAnswer a q d c t0 t1) = calculateScore a q d \<and>
   eval_feedback (evaluateAnswer a q d c t0 t1) =
     generateFeedback a q (calculateScore a q d) c d"
  by (simp add: evaluateAnswer_score evaluateAnswer_feedback)

theorem evaluateAnswer_deterministic_witness:
  "eval_score (evaluateAnswer ''I dont know.'' ''Explain recursion'' ''hard'' ''DSA'' 0 500) =
     eval_score (evaluateAnswer ''I dont know.'' ''Explain recursion'' ''hard'' ''DSA'' 9000 9700) \<and>
   eval_feedback (evaluateAnswer ''I dont know.'' ''Explain recursion'' ''hard'' ''DSA'' 0 500) =
     eval_feedback
       (evaluateAnswer ''I dont know.'' ''Explain recursion'' ''hard'' ''DSA'' 9000 9700)"
  using evaluateAnswer_deterministic
    [of "''I dont know.''" "''Explain recursion''" "''hard''" "''DSA''" 0 500 9000 9700]
  by blast

section \<open>The word count\<close>













text \<open>The difference reaches the score: fourteen words after a space count as fifteen,
  the mid threshold of difficulty easy.\<close>

lemma leading_space_changes_score:
  "calculateScore '' a b c d e f g h i j k l m n'' ''Explain recursion'' ''easy'' = 60 \<and>
   calculateScore ''a b c d e f g h i j k l m n'' ''Explain recursion'' ''easy'' = 50"
  by code_simp



section \<open>The storage\<close>




text \<open>
  Claim C6. For an identifier present in the storage, \<open>updateAnswerEvaluation\<close> returns and
  stores under that identifier a row whose feedback and score are those of the evaluation,
  whose status is completed and whose evaluation time is the time of the call, so that the
  three are present together; the identifier of the row, the interview, the question, the
  user, the answer text, the confidence and the time of submission are those of the row
  stored before, and the rows under other identifiers are unchanged.
\<close>

theorem updateAnswerEvaluation_present:
  assumes "getAnswer s i = Some a"
  shows "\<exists>r s'. updateAnswerEvaluation s i ev now = (Inr r, s') \<and>
      getAnswer s' i = Some r \<and>
      feedback r = Some (eval_feedback ev) \<and> score r = Some (eval_score ev) \<and>
      evaluationStatus r = Some ''completed'' \<and> evaluatedAt r = Some now \<and>
      id' r = id' a \<and> interviewId r = interviewId a \<and> questionId r = questionId a \<and>
      userId r = userId a \<and> answerText r = answerText a \<and> confidence r = confidence a \<and>
      submittedAt r = submittedAt a \<and>
      (\<forall>j. j \<noteq> i \<longrightarrow> getAnswer s' j = getAnswer s j)"
  using assms by (simp add: updateAnswerEvaluation_def getAnswer_def Let_def)

theorem updateAnswerEvaluation_present_witness:
  "getAnswer sampleStorage ''a-1'' = Some sampleAnswer \<and>
   (\<exists>r s'. updateAnswerEvaluation sampleStorage ''a-1'' sampleEvaluation 2000 = (Inr r, s') \<and>
      getAnswer s' ''a-1'' = Some r \<and> score r = Some 65 \<and>
      evaluationStatus r = Some ''completed'' \<and> evaluatedAt r = Some 2000 \<and>
      submittedAt r = Some 1000 \<and> id' r = ''a-1'' \<and>
      getAnswer s' ''a-2'' = None)"
proof -
  have h: "getAnswer sampleStorage ''a-1'' = Some sampleAnswer"
    by (simp add: getAnswer_def sampleStorage_def)
  have ne: "''a-2'' \<noteq> ''a-1''" by simp
  have n: "getAnswer sampleStorage ''a-2'' = None"
    by (simp add: getAnswer_def sampleStorage_def)
  from updateAnswerEvaluation_present [OF h, of sampleEvaluation 2000]
  obtain r s' where
    "updateAnswerEvaluation sampleStorage ''a-1'' sampleEvaluation 2000 = (Inr r, s')"
    "getAnswer s' ''a-1'' = Some r" "score r = Some (eval_score sampleEvaluation)"
    "evaluationStatus r = Some ''completed''" "evaluatedAt r = Some 2000"
    "submittedAt r = submittedAt sampleAnswer" "id' r = id' sampleAnswer"
    "\<forall>j. j \<noteq> ''a-1'' \<longrightarrow> getAnswer s' j = getAnswer sampleStorage j"
    by blast
  with h ne n show ?thesis
    by (simp add: sampleEvaluation_def sampleAnswer_def)
qed

text \<open>
  Claim C7. For an identifier not present in the storage, \<open>updateAnswerEvaluation\<close> raises
  the error that the answer is not found, and the storage after the call is the storage
  before it: no row is created under the identifier, and every identifier gives the row
  it gave before.
\<close>

theorem updateAnswerEvaluation_unknown:
  assumes "getAnswer s i = None"
  shows "updateAnswerEvaluation s i ev now =
           (Inl (Error (''Answer '' @ i @ '' not found'')), s) \<and>
         getAnswer (snd (updateAnswerEvaluation s i ev now)) i = None \<and>
         (\<forall>j. getAnswer (snd (updateAnswerEvaluation s i ev now)) j = getAnswer s j)"
  using assms by (simp add: updateAnswerEvaluation_def getAnswer_def)

theorem updateAnswerEvaluation_unknown_witness:
  "getAnswer sampleStorage ''a-2'' = None \<and>
   updateAnswerEvaluation sampleStorage ''a-2'' sampleEvaluation 2000 =
     (Inl (Error ''Answer a-2 not found''), sampleStorage) \<and>
   getAnswer (snd (updateAnswerEvaluation sampleStorage ''a-2'' sampleEvaluation 2000)) ''a-1'' =
     Some sampleAnswer"
proof -
  have h: "getAnswer sampleStorage ''a-2'' = None"
    by (simp add: getAnswer_def sampleStorage_def)
  have "getAnswer sampleStorage ''a-1'' = Some sampleAnswer"
    by (simp add: getAnswer_def sampleStorage_def)
  with h updateAnswerEvaluation_unknown [OF h, of sampleEvaluation 2000]
  show ?thesis by simp
qed

end
